theory Spec2Isabelle
  imports Main "HOL-Library.FSet" "HOL-Library.Sublist" "HOL-Library.Char_ord"
    "HOL-Library.List_Lexorder"
begin

section \<open>The UNjobs watcher (unjobs\_watcher.py)\<close>

text \<open>
  A shallow embedding of \<^verbatim>\<open>src/unjobs_watcher.py\<close>. Python strings are \<open>string\<close>
  (one \<open>char\<close> per character), Python sets of ids are finite sets, exceptions are values
  of the type \<open>error\<close>, and everything outside the process (the environment variables,
  the web site, the two delivery services, the seen file, the log) is a field of the
  record \<open>world\<close>. Each effect is appended to the world's \<open>trace\<close>.
\<close>

subsection \<open>Constants (lines 6--10)\<close>

definition BASE_URL :: string where
  "BASE_URL = ''https://unjobs.org/duty_stations/bangladesh''"

definition PAGES_TO_CHECK :: nat where
  "PAGES_TO_CHECK = 2"

subsection \<open>Data\<close>

text \<open>The dictionary that \<^verbatim>\<open>parse_jobs\<close> builds for a listing (line 57); the key
  \<^verbatim>\<open>"id"\<close> is the field \<open>job_id\<close>.\<close>

record job =
  job_id :: string
  title :: string
  org :: string
  link :: string
  updated :: string

text \<open>The exceptions that the modelled code can raise.\<close>

datatype error =
    ValueError
  | TypeError
  | JSONDecodeError
  | UnicodeDecodeError
  | RecursionError
  | OSError
  | RequestException

text \<open>What the process does to the outside, in order.\<close>

datatype event =
    HttpGet string
  | Sleep nat
  | LogInfo string
  | LogException string
  | HttpPost string string string
  | SmtpSession string int string string string string
  | FileWrite "string list"

text \<open>
  A value that \<^verbatim>\<open>json.load\<close> can return: \<^verbatim>\<open>None\<close>, a boolean, an \<^verbatim>\<open>int\<close>, a \<^verbatim>\<open>float\<close>
  (a finite one is given by its exact value; \<^verbatim>\<open>Infinity\<close>, \<^verbatim>\<open>-Infinity\<close> and \<^verbatim>\<open>NaN\<close> are
  the three others), a string, a list, or a dictionary as the list of its items.
\<close>

datatype json =
    JNull
  | JBool bool
  | JInt int
  | JFloat rat
  | JInf
  | JNegInf
  | JNaN
  | JStr string
  | JArr "json list"
  | JObj "(string \<times> json) list"

text \<open>
  The seen file as line 15--17 meet it: it does not exist; or it exists and
  \<^verbatim>\<open>open\<close> or \<^verbatim>\<open>json.load\<close> raises the given exception (the text is not JSON, is not
  UTF-8, nests too deep, holds an integer too long to convert, the file cannot be read);
  or it exists and \<^verbatim>\<open>json.load\<close> returns the given value. When \<^verbatim>\<open>json.load\<close> raises is
  the library's matter and is not modelled further.
\<close>

datatype file_state = Missing | Raises error | Holds json

text \<open>
  A member of a Python set built from such values, up to Python's equality: numbers are
  compared by value, so \<^verbatim>\<open>1\<close>, \<^verbatim>\<open>1.0\<close> and \<^verbatim>\<open>True\<close> are one member, as are \<^verbatim>\<open>0\<close>,
  \<^verbatim>\<open>-0.0\<close> and \<^verbatim>\<open>False\<close>; \<^verbatim>\<open>json.load\<close> returns the same object for every \<^verbatim>\<open>NaN\<close>, so
  \<^verbatim>\<open>NaN\<close> is one member too.
\<close>

datatype atom = ANone | ANum rat | AInf | ANegInf | ANaN | AStr string

text \<open>The environment variables the program reads with \<^verbatim>\<open>os.getenv\<close>
  (\<open>None\<close>: the variable is not set).\<close>

record environ =
  TELEGRAM_BOT_TOKEN :: "string option"
  TELEGRAM_CHAT_ID :: "string option"
  SMTP_HOST :: "string option"
  SMTP_USER :: "string option"
  SMTP_PASS :: "string option"
  ALERT_EMAIL :: "string option"
  SMTP_PORT :: "string option"

text \<open>
  One anchor that \<^verbatim>\<open>soup.find_all("a", href=re.compile(r"/jobs/"))\<close> yields, as the
  results of the library calls made on it:
  \<^item> \<open>a_text\<close>: \<^verbatim>\<open>a.get_text(strip=True)\<close>;
  \<^item> \<open>a_link\<close>: \<^verbatim>\<open>urljoin(base, a.get("href") or "")\<close>;
  \<^item> \<open>a_sibs\<close>: the value of \<^verbatim>\<open>txt\<close> for each node that the sibling walk of lines
    43--50 visits, in order, up to the first node that is false;
  \<^item> \<open>a_upd\<close>: \<open>None\<close> when \<^verbatim>\<open>a.find_next(string=...)\<close> finds no node, otherwise
    group 1 of \<^verbatim>\<open>re.search(r"Updated:\s*(\S+)", upd_node)\<close>.
\<close>

record anchor =
  a_text :: string
  a_link :: string
  a_sibs :: "string list"
  a_upd :: "string option"

text \<open>
  The world: \<open>web url\<close> is what \<^verbatim>\<open>fetch(url)\<close> followed by the HTML parser gives
  (\<open>Inl\<close>: the request or the parse raised); \<open>post_ok\<close> and \<open>smtp_ok\<close> say whether
  the Telegram request and the SMTP session go through; \<open>writable\<close> whether the seen
  file can be opened for writing.
\<close>

record world =
  environ :: environ
  web :: "string \<Rightarrow> error + anchor list"
  post_ok :: bool
  smtp_ok :: bool
  writable :: bool
  seen_file :: file_state
  trace :: "event list"

definition emit :: "world \<Rightarrow> event \<Rightarrow> world" where
  "emit w ev = w\<lparr>trace := trace w @ [ev]\<rparr>"

text \<open>The contents written to the seen file so far, oldest first, read off the trace.\<close>

definition writes :: "world \<Rightarrow> string list list" where
  "writes w = concat (map (\<lambda>ev. case ev of FileWrite ids \<Rightarrow> [ids] | _ \<Rightarrow> []) (trace w))"

subsection \<open>Python built-ins used by the program\<close>

text \<open>Truth value of what \<^verbatim>\<open>os.getenv\<close> returns: \<^verbatim>\<open>None\<close> and \<^verbatim>\<open>""\<close> are false.\<close>

definition truthy :: "string option \<Rightarrow> bool" where
  "truthy v = (case v of None \<Rightarrow> False | Some s \<Rightarrow> s \<noteq> [])"

definition env_str :: "string option \<Rightarrow> string" where
  "env_str v = (case v of None \<Rightarrow> [] | Some s \<Rightarrow> s)"

text \<open>The value of a decimal digit, and the digit of a value below ten.\<close>

definition digit_val :: "char \<Rightarrow> nat option" where
  "digit_val c = map_of (zip ''0123456789'' [0, 1, 2, 3, 4, 5, 6, 7, 8, 9]) c"

definition digit_char :: "nat \<Rightarrow> char" where
  "digit_char d = ''0123456789'' ! d"

text \<open>\<^verbatim>\<open>"%d" % n\<close> and \<^verbatim>\<open>f"{n}"\<close> for a natural number.\<close>

fun str_nat :: "nat \<Rightarrow> string" where
  "str_nat n = (if n < 10 then [digit_char n] else str_nat (n div 10) @ [digit_char (n mod 10)])"

declare str_nat.simps [simp del]

text \<open>
  \<^verbatim>\<open>int(s)\<close> on a string of characters below 256: the white space that \<^verbatim>\<open>int\<close>
  accepts around the literal (tab, line feed, vertical tab, form feed, carriage return,
  space, and the two non-ASCII spaces 0x85 and 0xA0; the separators 0x1C to 0x1F are
  not accepted) is dropped, a sign may come first, then decimal digits, with single
  underscores allowed between digits. Anything else raises \<^verbatim>\<open>ValueError\<close>, and so does a
  literal of more than \<^verbatim>\<open>sys.int_info.default_max_str_digits\<close> digits.
\<close>

definition MAX_STR_DIGITS :: nat where
  "MAX_STR_DIGITS = 4300"

definition py_isspace :: "char \<Rightarrow> bool" where
  "py_isspace c = (c \<in> set [CHR 0x09, CHR 0x0A, CHR 0x0B, CHR 0x0C, CHR 0x0D, CHR 0x20,
      CHR 0x85, CHR 0xA0])"

definition py_strip :: "string \<Rightarrow> string" where
  "py_strip s = rev (dropWhile py_isspace (rev (dropWhile py_isspace s)))"

fun digits_value :: "nat \<Rightarrow> string \<Rightarrow> nat option" where
  "digits_value n [] = Some n"
| "digits_value n (c # cs) =
    (if c = CHR ''_'' then
       (case cs of
          [] \<Rightarrow> None
        | c' # cs' \<Rightarrow>
            (case digit_val c' of None \<Rightarrow> None | Some d \<Rightarrow> digits_value (10 * n + d) cs'))
     else
       (case digit_val c of None \<Rightarrow> None | Some d \<Rightarrow> digits_value (10 * n + d) cs))"

definition py_int :: "string \<Rightarrow> error + int" where
  "py_int s =
    (let t = py_strip s;
         neg = (case t of [] \<Rightarrow> False | c # _ \<Rightarrow> c = CHR ''-'');
         u = (case t of [] \<Rightarrow> [] | c # cs \<Rightarrow> if c = CHR ''+'' \<or> c = CHR ''-'' then cs else t)
     in case u of
          [] \<Rightarrow> Inl ValueError
        | c # cs \<Rightarrow>
            (case digit_val c of
               None \<Rightarrow> Inl ValueError
             | Some d \<Rightarrow>
                 (case digits_value d cs of
                    None \<Rightarrow> Inl ValueError
                  | Some n \<Rightarrow>
                      if MAX_STR_DIGITS < length (filter (\<lambda>x. x \<noteq> CHR ''_'') u)
                      then Inl ValueError
                      else Inr (if neg then - int n else int n))))"

text \<open>\<^verbatim>\<open>sep.join(xs)\<close>.\<close>

fun join :: "string \<Rightarrow> string list \<Rightarrow> string" where
  "join sep [] = []"
| "join sep [x] = x"
| "join sep (x # y # ys) = x @ sep @ join sep (y # ys)"

subsection \<open>The seen store (lines 14--22)\<close>

text \<open>\<^verbatim>\<open>set(v)\<close> for a value \<open>v\<close> that \<^verbatim>\<open>json.load\<close> returned: a list gives its elements
  (each must be hashable: lists and dictionaries are not), a dictionary its keys, a
  string its characters; \<^verbatim>\<open>None\<close>, booleans and numbers are not iterable.\<close>

fun atom_of :: "json \<Rightarrow> atom option" where
  "atom_of JNull = Some ANone"
| "atom_of (JBool b) = Some (ANum (if b then 1 else 0))"
| "atom_of (JInt n) = Some (ANum (of_int n))"
| "atom_of (JFloat q) = Some (ANum q)"
| "atom_of JInf = Some AInf"
| "atom_of JNegInf = Some ANegInf"
| "atom_of JNaN = Some ANaN"
| "atom_of (JStr s) = Some (AStr s)"
| "atom_of (JArr xs) = None"
| "atom_of (JObj kvs) = None"

fun py_set :: "json \<Rightarrow> error + atom fset" where
  "py_set JNull = Inl TypeError"
| "py_set (JBool b) = Inl TypeError"
| "py_set (JInt n) = Inl TypeError"
| "py_set (JFloat q) = Inl TypeError"
| "py_set JInf = Inl TypeError"
| "py_set JNegInf = Inl TypeError"
| "py_set JNaN = Inl TypeError"
| "py_set (JStr s) = Inr (fset_of_list (map (\<lambda>c. AStr [c]) s))"
| "py_set (JArr xs) =
    (if list_all (\<lambda>x. atom_of x \<noteq> None) xs
     then Inr (fset_of_list (map (\<lambda>x. case atom_of x of None \<Rightarrow> ANone | Some a \<Rightarrow> a) xs))
     else Inl TypeError)"
| "py_set (JObj kvs) = Inr (fset_of_list (map (\<lambda>kv. AStr (fst kv)) kvs))"

definition load_seen :: "world \<Rightarrow> error + atom fset" where
  "load_seen w =
    (case seen_file w of
       Missing \<Rightarrow> Inr {||}
     | Raises err \<Rightarrow> Inl err
     | Holds v \<Rightarrow> py_set v)"

text \<open>\<^verbatim>\<open>save_seen\<close>: opening the file for writing may raise; otherwise the file holds
  the sorted list of the set's members. The first component is the exception, if any.\<close>

definition save_seen :: "world \<Rightarrow> string fset \<Rightarrow> error option \<times> world" where
  "save_seen w seen =
    (if writable w
     then (None, emit (w\<lparr>seen_file := Holds (JArr (map JStr (sorted_list_of_fset seen)))\<rparr>)
                   (FileWrite (sorted_list_of_fset seen)))
     else (Some OSError, w))"

subsection \<open>The parser (lines 29--58)\<close>

text \<open>Lines 41--50: the first of at most six visited nodes whose text is not empty and
  does not start with \<^verbatim>\<open>Updated:\<close>; the empty string when there is none.\<close>

definition find_org :: "string list \<Rightarrow> string" where
  "find_org sibs =
    (case find (\<lambda>txt. txt \<noteq> [] \<and> \<not> prefix ''Updated:'' txt) (take 6 sibs) of
       None \<Rightarrow> []
     | Some txt \<Rightarrow> txt)"

fun parse_loop :: "string set \<Rightarrow> job list \<Rightarrow> anchor list \<Rightarrow> job list" where
  "parse_loop seen_links jobs [] = jobs"
| "parse_loop seen_links jobs (a # as) =
    (if a_text a = [] \<or> a_link a \<in> seen_links then parse_loop seen_links jobs as
     else
       (let upd = (case a_upd a of None \<Rightarrow> [] | Some tok \<Rightarrow> tok)
        in parse_loop (insert (a_link a) seen_links)
             (jobs @ [\<lparr>job_id = a_link a @ ''::'' @ upd, title = a_text a,
                       org = find_org (a_sibs a), link = a_link a, updated = upd\<rparr>])
             as))"

definition parse_jobs :: "anchor list \<Rightarrow> job list" where
  "parse_jobs anchors = parse_loop {} [] anchors"

subsection \<open>Delivery (lines 60--104)\<close>

definition send_telegram :: "world \<Rightarrow> string \<Rightarrow> bool \<times> world" where
  "send_telegram w msg =
    (let token = TELEGRAM_BOT_TOKEN (environ w); chat = TELEGRAM_CHAT_ID (environ w)
     in if \<not> (truthy token \<and> truthy chat) then (False, w)
        else
          (let w1 = emit w (HttpPost (''https://api.telegram.org/bot'' @ env_str token
                                        @ ''/sendMessage'') (env_str chat) msg)
           in if post_ok w then (True, w1)
              else (False, emit w1 (LogException ''Telegram failed''))))"

text \<open>Line 76: \<^verbatim>\<open>int(os.getenv("SMTP_PORT") or 587)\<close>.\<close>

definition smtp_port :: "environ \<Rightarrow> error + int" where
  "smtp_port e = (if truthy (SMTP_PORT e) then py_int (env_str (SMTP_PORT e)) else Inr 587)"

definition send_email :: "world \<Rightarrow> string \<Rightarrow> string \<Rightarrow> (error + bool) \<times> world" where
  "send_email w subject body =
    (let e = environ w
     in case smtp_port e of
          Inl err \<Rightarrow> (Inl err, w)
        | Inr port \<Rightarrow>
            if \<not> (truthy (SMTP_HOST e) \<and> truthy (SMTP_USER e) \<and> truthy (SMTP_PASS e)
                   \<and> truthy (ALERT_EMAIL e))
            then (Inr False, w)
            else
              (let w1 = emit w (SmtpSession (env_str (SMTP_HOST e)) port
                                  (env_str (SMTP_USER e)) (env_str (ALERT_EMAIL e)) subject body)
               in if smtp_ok w then (Inr True, w1)
                  else (Inr False, emit w1 (LogException ''Email failed''))))"

text \<open>Line 100: the five entries that one record adds to \<^verbatim>\<open>lines\<close>.\<close>

definition job_lines :: "job \<Rightarrow> string list" where
  "job_lines j =
    [''<b>'' @ title j @ ''</b>'', org j, link j,
     (if updated j \<noteq> [] then ''Updated: '' @ updated j else []), []]"

text \<open>Lines 98--101: the message.\<close>

definition alert_msg :: "job list \<Rightarrow> string" where
  "alert_msg new_jobs =
    join [CHR 0x0A] (filter (\<lambda>x. x \<noteq> []) (concat (map job_lines new_jobs)))"

definition alert :: "world \<Rightarrow> job list \<Rightarrow> error option \<times> world" where
  "alert w new_jobs =
    (if new_jobs = [] then (None, w)
     else
       (case send_telegram w (alert_msg new_jobs) of
          (True, w1) \<Rightarrow> (None, w1)
        | (False, w1) \<Rightarrow>
            (case send_email w1 ''New UNjobs - Bangladesh'' (alert_msg new_jobs) of
               (Inl err, w2) \<Rightarrow> (Some err, w2)
             | (Inr ok, w2) \<Rightarrow> (None, w2))))"

subsection \<open>One cycle (lines 106--131)\<close>

text \<open>Line 108: \<^verbatim>\<open>range(1, PAGES_TO_CHECK + 1)\<close>.\<close>

definition pages :: "nat list" where
  "pages = [1..<PAGES_TO_CHECK + 1]"

definition page_url :: "nat \<Rightarrow> string" where
  "page_url p = (if p = 1 then BASE_URL else BASE_URL @ ''/'' @ str_nat p)"

text \<open>Lines 108--115: a page that fails is logged and skipped.\<close>

fun fetch_pages :: "world \<Rightarrow> nat list \<Rightarrow> job list \<Rightarrow> job list \<times> world" where
  "fetch_pages w [] found = (found, w)"
| "fetch_pages w (p # ps) found =
    (case web w (page_url p) of
       Inl err \<Rightarrow>
         fetch_pages (emit (emit w (HttpGet (page_url p))) (LogException ''Fetch/parse error''))
           ps found
     | Inr anchors \<Rightarrow>
         fetch_pages (emit (emit w (HttpGet (page_url p))) (Sleep 1))
           ps (found @ parse_jobs anchors))"

text \<open>Lines 117--122: the first record of every id, in order.\<close>

fun unique_loop :: "string set \<Rightarrow> job list \<Rightarrow> job list \<Rightarrow> job list" where
  "unique_loop uniq seen_ids [] = seen_ids"
| "unique_loop uniq seen_ids (j # found) =
    (if job_id j \<in> uniq then unique_loop uniq seen_ids found
     else unique_loop (insert (job_id j) uniq) (seen_ids @ [j]) found)"

definition unique :: "job list \<Rightarrow> job list" where
  "unique found = unique_loop {} [] found"

text \<open>Line 123: the records whose id is not in \<^verbatim>\<open>seen\<close>.\<close>

definition novel :: "string fset \<Rightarrow> job list \<Rightarrow> job list" where
  "novel seen seen_ids = filter (\<lambda>j. job_id j |\<notin>| seen) seen_ids"

text \<open>
  \<^verbatim>\<open>check_once\<close>. The set \<^verbatim>\<open>seen\<close> is a mutable object that the caller shares, so the
  result gives the exception (if the cycle raised), the content of that object when the
  cycle ends (this is also the returned value), and the world.
\<close>

definition check_once :: "world \<Rightarrow> string fset \<Rightarrow> error option \<times> string fset \<times> world" where
  "check_once w seen =
    (case fetch_pages w pages [] of
       (found, w1) \<Rightarrow>
         (let new = novel seen (unique found)
          in if new \<noteq> [] then
               (case alert (emit w1 (LogInfo (''New jobs: '' @ str_nat (length new)))) new of
                  (Some err, w2) \<Rightarrow> (Some err, seen, w2)
                | (None, w2) \<Rightarrow>
                    (case save_seen w2 (seen |\<union>| fset_of_list (map job_id new)) of
                       (r, w3) \<Rightarrow> (r, seen |\<union>| fset_of_list (map job_id new), w3)))
             else (None, seen, emit w1 (LogInfo ''No new jobs.''))))"

subsection \<open>Example data\<close>

text \<open>Records, anchors and worlds on which the theorems below are run.\<close>

definition job_A :: job where
  "job_A = \<lparr>job_id = ''A::t1'', title = ''Driver'', org = ''UNDP'', link = ''A'',
      updated = ''t1''\<rparr>"

definition job_A_again :: job where
  "job_A_again = \<lparr>job_id = ''A::t1'', title = ''Senior Driver'', org = [], link = ''A'',
      updated = ''t1''\<rparr>"

definition job_B :: job where
  "job_B = \<lparr>job_id = ''B::t2'', title = ''Analyst'', org = [], link = ''B'',
      updated = ''t2''\<rparr>"

definition job_1 :: job where
  "job_1 = \<lparr>job_id = ''https://x/jobs/1::'', title = ''Driver'', org = [],
      link = ''https://x/jobs/1'', updated = []\<rparr>"

definition job_2 :: job where
  "job_2 = \<lparr>job_id = ''https://x/jobs/2::'', title = ''Analyst'', org = [],
      link = ''https://x/jobs/2'', updated = []\<rparr>"

definition anchor_1 :: anchor where
  "anchor_1 = \<lparr>a_text = ''Driver'', a_link = ''https://x/jobs/1'',
      a_sibs = ['''', ''Updated: soon'', ''UNDP''], a_upd = None\<rparr>"

definition anchor_A :: anchor where
  "anchor_A = \<lparr>a_text = ''Driver'', a_link = ''A'', a_sibs = [''UNDP''], a_upd = Some ''t1''\<rparr>"

definition anchor_B :: anchor where
  "anchor_B = \<lparr>a_text = ''Analyst'', a_link = ''B'', a_sibs = [], a_upd = Some ''t2''\<rparr>"

text \<open>No variable set; every page lists the two anchors; both delivery services are down;
  no seen file yet.\<close>

definition env_unset :: environ where
  "env_unset = \<lparr>TELEGRAM_BOT_TOKEN = None, TELEGRAM_CHAT_ID = None, SMTP_HOST = None,
      SMTP_USER = None, SMTP_PASS = None, ALERT_EMAIL = None, SMTP_PORT = None\<rparr>"

definition world_0 :: world where
  "world_0 = \<lparr>environ = env_unset, web = (\<lambda>url. Inr [anchor_A, anchor_B]), post_ok = False,
      smtp_ok = False, writable = True, seen_file = Missing, trace = []\<rparr>"

text \<open>The same world with \<^verbatim>\<open>SMTP_PORT=abc\<close> in the environment.\<close>

definition world_bad_port :: world where
  "world_bad_port = world_0\<lparr>environ := env_unset\<lparr>SMTP_PORT := Some ''abc''\<rparr>\<rparr>"




section \<open>Properties\<close>

subsection \<open>Deduplication within a run\<close>

lemma unique_loop_acc: "unique_loop U acc found = acc @ unique_loop U [] found"
proof (induction found arbitrary: U acc)
  case Nil
  show ?case by simp
next
  case (Cons j found)
  show ?case
    using Cons.IH [of U acc] Cons.IH [of "insert (job_id j) U" "acc @ [j]"]
      Cons.IH [of "insert (job_id j) U" "[j]"]
    by simp
qed

lemma unique_loop_Cons:
  "unique_loop U [] (j # found) =
     (if job_id j \<in> U then unique_loop U [] found
      else j # unique_loop (insert (job_id j) U) [] found)"
  using unique_loop_acc [of "insert (job_id j) U" "[j]" found] by simp

lemma unique_loop_subseq: "subseq (unique_loop U [] found) found"
proof (induction found arbitrary: U)
  case Nil
  show ?case by simp
next
  case (Cons j found)
  show ?case
  proof (cases "job_id j \<in> U")
    case True
    with Cons.IH [of U] show ?thesis
      by (auto simp add: unique_loop_Cons simp del: unique_loop.simps(2))
  next
    case False
    with Cons.IH [of "insert (job_id j) U"] show ?thesis
      by (simp add: unique_loop_Cons del: unique_loop.simps(2))
  qed
qed

lemma unique_loop_set: "set (unique_loop U [] found) \<subseteq> set found"
  by (induction found arbitrary: U)
    (auto simp add: unique_loop_Cons simp del: unique_loop.simps(2))

lemma unique_loop_ids: "set (map job_id (unique_loop U [] found)) = job_id ` set found - U"
  by (induction found arbitrary: U)
    (auto simp add: unique_loop_Cons simp del: unique_loop.simps(2))

lemma unique_loop_distinct: "distinct (map job_id (unique_loop U [] found))"
proof (induction found arbitrary: U)
  case Nil
  show ?case by simp
next
  case (Cons j found)
  have "job_id j \<notin> set (map job_id (unique_loop (insert (job_id j) U) [] found))"
    unfolding unique_loop_ids by simp
  with Cons.IH show ?case
    by (simp add: unique_loop_Cons del: unique_loop.simps(2))
qed

lemma unique_loop_find:
  "find (\<lambda>r. job_id r = i) (unique_loop U [] found) =
     (if i \<in> U then None else find (\<lambda>r. job_id r = i) found)"
proof (induction found arbitrary: U)
  case Nil
  show ?case by simp
next
  case (Cons j found)
  show ?case
    using Cons.IH [of U] Cons.IH [of "insert (job_id j) U"]
    by (auto simp add: unique_loop_Cons simp del: unique_loop.simps(2))
qed

lemma unique_loop_fixed:
  "distinct (map job_id found) \<Longrightarrow> job_id ` set found \<inter> U = {} \<Longrightarrow>
     unique_loop U [] found = found"
proof (induction found arbitrary: U)
  case Nil
  show ?case by simp
next
  case (Cons j found)
  from Cons.prems have "job_id j \<notin> U" by auto
  moreover from Cons.prems have "unique_loop (insert (job_id j) U) [] found = found"
    by (intro Cons.IH) auto
  ultimately show ?case
    by (simp add: unique_loop_Cons del: unique_loop.simps(2))
qed

lemma unique_distinct: "distinct (map job_id (unique found))"
  unfolding unique_def by (rule unique_loop_distinct)

lemma unique_set: "set (unique found) \<subseteq> set found"
  unfolding unique_def by (rule unique_loop_set)

lemma unique_idem: "unique (unique found) = unique found"
  unfolding unique_def by (rule unique_loop_fixed) (simp_all add: unique_loop_distinct)

text \<open>
  Claim C3. The deduplication of lines 117--122 walks the concatenated records in order
  and keeps, for every id, the first record that carries it: the result is a subsequence
  of the input (so the first-seen order is preserved), its ids are pairwise distinct and
  are exactly the ids of the input, and looking an id up in the result finds the same
  record as looking it up in the input, which is the first one with that id. Of two
  records with the same id (whatever their titles) only the first is kept.
\<close>

theorem unique_keeps_first:
  "subseq (unique found) found
   \<and> distinct (map job_id (unique found))
   \<and> set (map job_id (unique found)) = set (map job_id found)
   \<and> find (\<lambda>r. job_id r = i) (unique found) = find (\<lambda>r. job_id r = i) found
   \<and> (job_id r1 = job_id r2 \<longrightarrow> unique [r1, r2] = [r1])"
proof -
  have "subseq (unique found) found"
    unfolding unique_def by (rule unique_loop_subseq)
  moreover have "distinct (map job_id (unique found))"
    by (rule unique_distinct)
  moreover have "set (map job_id (unique found)) = set (map job_id found)"
    unfolding unique_def unique_loop_ids by simp
  moreover have "find (\<lambda>r. job_id r = i) (unique found) = find (\<lambda>r. job_id r = i) found"
    unfolding unique_def unique_loop_find by simp
  moreover have "job_id r1 = job_id r2 \<longrightarrow> unique [r1, r2] = [r1]"
    by (simp add: unique_def)
  ultimately show ?thesis by blast
qed

theorem unique_keeps_first_witness:
  "subseq (unique [job_A, job_A_again, job_B]) [job_A, job_A_again, job_B]
   \<and> distinct (map job_id (unique [job_A, job_A_again, job_B]))
   \<and> set (map job_id (unique [job_A, job_A_again, job_B])) = {''A::t1'', ''B::t2''}
   \<and> find (\<lambda>r. job_id r = ''A::t1'') (unique [job_A, job_A_again, job_B]) = Some job_A
   \<and> job_id job_A = job_id job_A_again
   \<and> title job_A \<noteq> title job_A_again
   \<and> unique [job_A, job_A_again] = [job_A]"
  using unique_keeps_first [of "[job_A, job_A_again, job_B]" "''A::t1''" job_A job_A_again]
  by (simp add: job_A_def job_A_again_def job_B_def)

subsection \<open>The novelty filter\<close>

lemma novel_subset: "set (novel seen xs) \<subseteq> set xs"
  by (simp add: novel_def)

lemma novel_fresh: "j \<in> set (novel seen xs) \<Longrightarrow> job_id j |\<notin>| seen"
  by (simp add: novel_def)

lemma novel_distinct: "distinct (map job_id xs) \<Longrightarrow> distinct (map job_id (novel seen xs))"
  by (simp add: novel_def distinct_map_filter)

lemma novel_empty_seen: "novel {||} xs = xs"
  by (simp add: novel_def)

text \<open>
  Claim C10. The new records that the differ computes (deduplication, then the novelty
  filter) have pairwise distinct ids, each of them is a record of the input list, and
  none of their ids is a member of the seen set.
\<close>

theorem new_records_sound:
  "distinct (map job_id (novel seen (unique found)))
   \<and> set (novel seen (unique found)) \<subseteq> set found
   \<and> (\<forall>j \<in> set (novel seen (unique found)). job_id j |\<notin>| seen)"
proof -
  have "set (novel seen (unique found)) \<subseteq> set found"
    using novel_subset [of seen "unique found"] unique_set [of found] by blast
  moreover have "distinct (map job_id (novel seen (unique found)))"
    by (rule novel_distinct) (rule unique_distinct)
  ultimately show ?thesis
    by (simp add: novel_fresh)
qed

theorem new_records_sound_witness:
  "novel {|''B::t2''|} (unique [job_A, job_A_again, job_B]) = [job_A]
   \<and> distinct (map job_id (novel {|''B::t2''|} (unique [job_A, job_A_again, job_B])))
   \<and> job_A \<in> set [job_A, job_A_again, job_B]
   \<and> job_id job_A |\<notin>| {|''B::t2''|}"
  using new_records_sound [of "{|''B::t2''|}" "[job_A, job_A_again, job_B]"]
  by (simp add: unique_def novel_def job_A_def job_A_again_def job_B_def)

text \<open>
  Claim C2. The novelty filter of line 123 is a function of the record list and the seen
  set and writes neither, so a repeated call with the same set gives the same records;
  filtering its own result with the same set changes nothing; and once the ids of the
  records it returned have been added to the seen set, filtering the same input again
  gives the empty list. This holds for every record list, deduplicated or not.
\<close>

theorem novel_idempotent:
  "novel seen (novel seen xs) = novel seen xs
   \<and> novel (seen |\<union>| fset_of_list (map job_id (novel seen xs))) xs = []"
proof -
  have "novel seen (novel seen xs) = novel seen xs"
    by (simp add: novel_def)
  moreover have "novel (seen |\<union>| fset_of_list (map job_id (novel seen xs))) xs = []"
    by (auto simp add: novel_def filter_empty_conv fset_of_list_elem)
  ultimately show ?thesis by simp
qed

subsection \<open>The parser\<close>

lemma parse_loop_id:
  "\<forall>j \<in> set jobs. job_id j = link j @ ''::'' @ updated j \<Longrightarrow>
   \<forall>j \<in> set (parse_loop S jobs as). job_id j = link j @ ''::'' @ updated j"
proof (induction as arbitrary: S jobs)
  case Nil
  then show ?case by simp
next
  case (Cons a as)
  let ?upd = "case a_upd a of None \<Rightarrow> [] | Some tok \<Rightarrow> tok"
  let ?j = "\<lparr>job_id = a_link a @ ''::'' @ ?upd, title = a_text a,
              org = find_org (a_sibs a), link = a_link a, updated = ?upd\<rparr>"
  have "\<forall>j \<in> set (jobs @ [?j]). job_id j = link j @ ''::'' @ updated j"
    using Cons.prems by simp
  from Cons.IH [OF this] Cons.IH [OF Cons.prems] show ?case
    by (simp add: Let_def)
qed

text \<open>
  Claim C4. Every record that \<^verbatim>\<open>parse_jobs\<close> returns has as its id the link, then the
  separator \<^verbatim>\<open>::\<close>, then the updated string, also when the updated string is empty: a
  record with link \<^verbatim>\<open>https://x/jobs/1\<close> and empty updated string has the id
  \<^verbatim>\<open>https://x/jobs/1::\<close>, and an anchor with that link, a title and no timestamp node
  parses to exactly such a record.
\<close>

theorem parse_jobs_id:
  "(\<forall>j \<in> set (parse_jobs anchors). job_id j = link j @ ''::'' @ updated j)
   \<and> (\<forall>j \<in> set (parse_jobs anchors).
         link j = ''https://x/jobs/1'' \<and> updated j = [] \<longrightarrow> job_id j = ''https://x/jobs/1::'')
   \<and> (a_text a \<noteq> [] \<and> a_link a = ''https://x/jobs/1'' \<and> a_upd a = None \<longrightarrow>
         parse_jobs [a] =
           [\<lparr>job_id = ''https://x/jobs/1::'', title = a_text a, org = find_org (a_sibs a),
             link = ''https://x/jobs/1'', updated = []\<rparr>])"
proof -
  have all: "\<forall>j \<in> set (parse_jobs anchors). job_id j = link j @ ''::'' @ updated j"
    unfolding parse_jobs_def by (rule parse_loop_id) simp
  then have "\<forall>j \<in> set (parse_jobs anchors).
      link j = ''https://x/jobs/1'' \<and> updated j = [] \<longrightarrow> job_id j = ''https://x/jobs/1::''"
    by simp
  moreover have "a_text a \<noteq> [] \<and> a_link a = ''https://x/jobs/1'' \<and> a_upd a = None \<longrightarrow>
         parse_jobs [a] =
           [\<lparr>job_id = ''https://x/jobs/1::'', title = a_text a, org = find_org (a_sibs a),
             link = ''https://x/jobs/1'', updated = []\<rparr>]"
    by (simp add: parse_jobs_def)
  ultimately show ?thesis using all by blast
qed

theorem parse_jobs_id_witness:
  "parse_jobs [anchor_1] =
     [\<lparr>job_id = ''https://x/jobs/1::'', title = ''Driver'', org = ''UNDP'',
       link = ''https://x/jobs/1'', updated = []\<rparr>]
   \<and> a_text anchor_1 \<noteq> [] \<and> a_link anchor_1 = ''https://x/jobs/1'' \<and> a_upd anchor_1 = None"
  using parse_jobs_id [of "[anchor_1]" anchor_1]
  by (simp add: anchor_1_def find_org_def)

subsection \<open>The message\<close>

text \<open>What one record contributes after the filter of line 101: the title line always,
  the other three only when they are not empty. The fifth entry, the empty string that
  line 100 appends after each record, never passes the filter.\<close>

lemma job_lines_kept:
  "filter (\<lambda>x. x \<noteq> []) (job_lines j) =
     [''<b>'' @ title j @ ''</b>'']
     @ (if org j \<noteq> [] then [org j] else [])
     @ (if link j \<noteq> [] then [link j] else [])
     @ (if updated j \<noteq> [] then [''Updated: '' @ updated j] else [])"
  by (simp add: job_lines_def)

text \<open>
  Claim C5 (the code differs). For two records with empty organisation and empty updated
  string the message is the four content lines joined by single newlines: the line of the
  first link is followed directly by the title line of the second record. No blank
  separator line stands between the records.
\<close>

theorem alert_msg_without_separator:
  "alert_msg [job_1, job_2] =
     ''<b>Driver</b>'' @ [CHR 0x0A] @ ''https://x/jobs/1'' @ [CHR 0x0A]
     @ ''<b>Analyst</b>'' @ [CHR 0x0A] @ ''https://x/jobs/2''"
  by (simp add: alert_msg_def job_lines_def job_1_def job_2_def)

subsection \<open>The seen store\<close>

lemma atom_of_None:
  "(atom_of x = None) = (case x of JArr ys \<Rightarrow> True | JObj kvs \<Rightarrow> True | _ \<Rightarrow> False)"
  by (cases x) simp_all

lemma atom_of_value:
  "(case atom_of x of None \<Rightarrow> ANone | Some a \<Rightarrow> a) =
     (case x of
        JNull \<Rightarrow> ANone
      | JBool b \<Rightarrow> ANum (if b then 1 else 0)
      | JInt n \<Rightarrow> ANum (of_int n)
      | JFloat q \<Rightarrow> ANum q
      | JInf \<Rightarrow> AInf
      | JNegInf \<Rightarrow> ANegInf
      | JNaN \<Rightarrow> ANaN
      | JStr s \<Rightarrow> AStr s
      | _ \<Rightarrow> ANone)"
  by (cases x) simp_all

lemma py_set_array:
  "py_set (JArr xs) =
     (if list_ex (\<lambda>x. case x of JArr ys \<Rightarrow> True | JObj kvs \<Rightarrow> True | _ \<Rightarrow> False) xs
      then Inl TypeError
      else Inr (fset_of_list (map (\<lambda>x. case x of
                  JNull \<Rightarrow> ANone
                | JBool b \<Rightarrow> ANum (if b then 1 else 0)
                | JInt n \<Rightarrow> ANum (of_int n)
                | JFloat q \<Rightarrow> ANum q
                | JInf \<Rightarrow> AInf
                | JNegInf \<Rightarrow> ANegInf
                | JNaN \<Rightarrow> ANaN
                | JStr s \<Rightarrow> AStr s
                | _ \<Rightarrow> ANone) xs)))"
  by (simp add: list_all_iff list_ex_iff atom_of_None atom_of_value)

lemma py_set_strings: "py_set (JArr (map JStr ids)) = Inr (fset_of_list (map AStr ids))"
  by (simp add: list_all_iff comp_def)

text \<open>
  Claim C8 (as amended). When the seen file does not exist, \<^verbatim>\<open>load_seen\<close> returns the
  empty set. When it exists, loading fails exactly in these cases: opening or decoding
  the file raises (that exception leaves \<^verbatim>\<open>load_seen\<close>); the decoded value is
  \<^verbatim>\<open>null\<close>, a boolean or a number (\<^verbatim>\<open>TypeError\<close>); it is an array with an element that is
  itself an array or an object (\<^verbatim>\<open>TypeError\<close>). Every other value loads without error:
  an array of strings as the set of its elements, an array of strings, numbers, booleans
  and nulls as the set of its elements (numbers and booleans by value), an object as the
  set of its keys, a string as the set of its characters.
\<close>

theorem load_seen_cases:
  "(seen_file w = Missing \<longrightarrow> load_seen w = Inr {||})
   \<and> (seen_file w = Raises err \<longrightarrow> load_seen w = Inl err)
   \<and> (seen_file w = Holds v \<and> v \<in> {JNull, JBool b, JInt n, JFloat q, JInf, JNegInf, JNaN} \<longrightarrow>
        load_seen w = Inl TypeError)
   \<and> (seen_file w = Holds (JArr xs)
        \<and> list_ex (\<lambda>x. case x of JArr ys \<Rightarrow> True | JObj kvs \<Rightarrow> True | _ \<Rightarrow> False) xs \<longrightarrow>
        load_seen w = Inl TypeError)
   \<and> (seen_file w = Holds (JArr xs)
        \<and> \<not> list_ex (\<lambda>x. case x of JArr ys \<Rightarrow> True | JObj kvs \<Rightarrow> True | _ \<Rightarrow> False) xs \<longrightarrow>
        load_seen w =
          Inr (fset_of_list (map (\<lambda>x. case x of
                  JNull \<Rightarrow> ANone
                | JBool b \<Rightarrow> ANum (if b then 1 else 0)
                | JInt n \<Rightarrow> ANum (of_int n)
                | JFloat q \<Rightarrow> ANum q
                | JInf \<Rightarrow> AInf
                | JNegInf \<Rightarrow> ANegInf
                | JNaN \<Rightarrow> ANaN
                | JStr s \<Rightarrow> AStr s
                | _ \<Rightarrow> ANone) xs)))
   \<and> (seen_file w = Holds (JArr (map JStr ids)) \<longrightarrow>
        load_seen w = Inr (fset_of_list (map AStr ids)))
   \<and> (seen_file w = Holds (JObj kvs) \<longrightarrow>
        load_seen w = Inr (fset_of_list (map (\<lambda>kv. AStr (fst kv)) kvs)))
   \<and> (seen_file w = Holds (JStr s) \<longrightarrow>
        load_seen w = Inr (fset_of_list (map (\<lambda>c. AStr [c]) s)))"
proof -
  have scalar: "seen_file w = Holds v \<and> v \<in> {JNull, JBool b, JInt n, JFloat q, JInf, JNegInf, JNaN} \<longrightarrow>
        load_seen w = Inl TypeError"
    by (auto simp add: load_seen_def)
  have strs: "seen_file w = Holds (JArr (map JStr ids)) \<longrightarrow>
        load_seen w = Inr (fset_of_list (map AStr ids))"
    using py_set_strings [of ids] by (simp add: load_seen_def del: py_set.simps)
  have arr: "seen_file w = Holds (JArr xs) \<longrightarrow> load_seen w = py_set (JArr xs)"
    by (simp add: load_seen_def del: py_set.simps)
  have bad: "seen_file w = Holds (JArr xs)
        \<and> list_ex (\<lambda>x. case x of JArr ys \<Rightarrow> True | JObj kvs \<Rightarrow> True | _ \<Rightarrow> False) xs \<longrightarrow>
        load_seen w = Inl TypeError"
    using arr py_set_array [of xs] by (simp del: py_set.simps)
  have good: "seen_file w = Holds (JArr xs)
        \<and> \<not> list_ex (\<lambda>x. case x of JArr ys \<Rightarrow> True | JObj kvs \<Rightarrow> True | _ \<Rightarrow> False) xs \<longrightarrow>
        load_seen w =
          Inr (fset_of_list (map (\<lambda>x. case x of
                  JNull \<Rightarrow> ANone
                | JBool b \<Rightarrow> ANum (if b then 1 else 0)
                | JInt n \<Rightarrow> ANum (of_int n)
                | JFloat q \<Rightarrow> ANum q
                | JInf \<Rightarrow> AInf
                | JNegInf \<Rightarrow> ANegInf
                | JNaN \<Rightarrow> ANaN
                | JStr s \<Rightarrow> AStr s
                | _ \<Rightarrow> ANone) xs))"
    using arr py_set_array [of xs] by (simp del: py_set.simps)
  have rest: "(seen_file w = Missing \<longrightarrow> load_seen w = Inr {||})
      \<and> (seen_file w = Raises err \<longrightarrow> load_seen w = Inl err)
      \<and> (seen_file w = Holds (JObj kvs) \<longrightarrow>
            load_seen w = Inr (fset_of_list (map (\<lambda>kv. AStr (fst kv)) kvs)))
      \<and> (seen_file w = Holds (JStr s) \<longrightarrow>
            load_seen w = Inr (fset_of_list (map (\<lambda>c. AStr [c]) s)))"
    by (simp add: load_seen_def)
  from scalar strs bad good rest show ?thesis
    by blast
qed

text \<open>The claim as written fails: a seen file that holds the JSON object
  \<^verbatim>\<open>{"a": 1}\<close> is not a list of strings, and loads as the set with the one member
  \<^verbatim>\<open>"a"\<close>.\<close>

theorem load_seen_object_counterexample:
  "\<not> (\<forall>w v. seen_file w = Holds v \<and> (\<forall>ids. v \<noteq> JArr (map JStr ids))
         \<longrightarrow> (\<exists>err. load_seen w = Inl err))"
proof
  assume a: "\<forall>w v. seen_file w = Holds v \<and> (\<forall>ids. v \<noteq> JArr (map JStr ids))
         \<longrightarrow> (\<exists>err. load_seen w = Inl err)"
  let ?w = "world_0\<lparr>seen_file := Holds (JObj [(''a'', JInt 1)])\<rparr>"
  have "seen_file ?w = Holds (JObj [(''a'', JInt 1)])
      \<and> (\<forall>ids. JObj [(''a'', JInt 1)] \<noteq> JArr (map JStr ids))"
    by simp
  with a have "\<exists>err. load_seen ?w = Inl err" by blast
  moreover have "load_seen ?w = Inr {|AStr ''a''|}"
    by (simp add: load_seen_def)
  ultimately show False by simp
qed

theorem load_seen_cases_witness:
  "seen_file world_0 = Missing \<and> load_seen world_0 = Inr {||}
   \<and> load_seen (world_0\<lparr>seen_file := Raises UnicodeDecodeError\<rparr>) = Inl UnicodeDecodeError
   \<and> load_seen (world_0\<lparr>seen_file := Holds (JInt 3)\<rparr>) = Inl TypeError
   \<and> load_seen (world_0\<lparr>seen_file := Holds (JArr [JStr ''A::t1'', JArr []])\<rparr>) = Inl TypeError
   \<and> load_seen (world_0\<lparr>seen_file := Holds (JArr [JInt 1, JBool True, JNull, JStr ''x''])\<rparr>)
       = Inr {|ANum 1, ANone, AStr ''x''|}
   \<and> load_seen (world_0\<lparr>seen_file := Holds (JArr (map JStr [''A::t1'', ''B::t2'']))\<rparr>)
       = Inr {|AStr ''A::t1'', AStr ''B::t2''|}
   \<and> load_seen (world_0\<lparr>seen_file := Holds (JObj [(''a'', JInt 1), (''b'', JNull)])\<rparr>)
       = Inr {|AStr ''a'', AStr ''b''|}
   \<and> load_seen (world_0\<lparr>seen_file := Holds (JStr ''ab'')\<rparr>) = Inr {|AStr ''a'', AStr ''b''|}"
proof -
  have m: "seen_file world_0 = Missing"
    by (simp add: world_0_def)
  have c1: "load_seen world_0 = Inr {||}"
    using load_seen_cases [of world_0] m by simp
  have c2: "load_seen (world_0\<lparr>seen_file := Raises UnicodeDecodeError\<rparr>) = Inl UnicodeDecodeError"
    using load_seen_cases [of "world_0\<lparr>seen_file := Raises UnicodeDecodeError\<rparr>" UnicodeDecodeError]
    by simp
  have c3: "load_seen (world_0\<lparr>seen_file := Holds (JInt 3)\<rparr>) = Inl TypeError"
    using load_seen_cases [of "world_0\<lparr>seen_file := Holds (JInt 3)\<rparr>" _ "JInt 3" _ 3]
    by simp
  have c4: "load_seen (world_0\<lparr>seen_file := Holds (JArr [JStr ''A::t1'', JArr []])\<rparr>) = Inl TypeError"
    using load_seen_cases [of "world_0\<lparr>seen_file := Holds (JArr [JStr ''A::t1'', JArr []])\<rparr>"
        _ _ _ _ _ "[JStr ''A::t1'', JArr []]"]
    by simp
  have c5: "load_seen (world_0\<lparr>seen_file := Holds (JArr [JInt 1, JBool True, JNull, JStr ''x''])\<rparr>)
       = Inr {|ANum 1, ANone, AStr ''x''|}"
    using load_seen_cases [of "world_0\<lparr>seen_file := Holds (JArr [JInt 1, JBool True, JNull, JStr ''x''])\<rparr>"
        _ _ _ _ _ "[JInt 1, JBool True, JNull, JStr ''x'']"]
    by simp
  have c6: "load_seen (world_0\<lparr>seen_file := Holds (JArr (map JStr [''A::t1'', ''B::t2'']))\<rparr>)
       = Inr {|AStr ''A::t1'', AStr ''B::t2''|}"
    using load_seen_cases [of "world_0\<lparr>seen_file := Holds (JArr (map JStr [''A::t1'', ''B::t2'']))\<rparr>"
        _ _ _ _ _ _ "[''A::t1'', ''B::t2'']"]
    by simp
  have c7: "load_seen (world_0\<lparr>seen_file := Holds (JObj [(''a'', JInt 1), (''b'', JNull)])\<rparr>)
       = Inr {|AStr ''a'', AStr ''b''|}"
    using load_seen_cases [of "world_0\<lparr>seen_file := Holds (JObj [(''a'', JInt 1), (''b'', JNull)])\<rparr>"
        _ _ _ _ _ _ _ "[(''a'', JInt 1), (''b'', JNull)]"]
    by simp
  have c8: "load_seen (world_0\<lparr>seen_file := Holds (JStr ''ab'')\<rparr>) = Inr {|AStr ''a'', AStr ''b''|}"
    using load_seen_cases [of "world_0\<lparr>seen_file := Holds (JStr ''ab'')\<rparr>" _ _ _ _ _ _ _ _ "''ab''"]
    by simp
  from m c1 c2 c3 c4 c5 c6 c7 c8 show ?thesis by simp
qed





subsection \<open>What an operation leaves alone\<close>

text \<open>Fetching and delivering change nothing of the world but its trace, and add no
  write of the seen file to it.\<close>

lemma frame_fields:
  "w' = w\<lparr>trace := t\<rparr> \<Longrightarrow>
     environ w' = environ w \<and> web w' = web w \<and> post_ok w' = post_ok w
     \<and> smtp_ok w' = smtp_ok w \<and> writable w' = writable w \<and> seen_file w' = seen_file w"
  by simp

lemma emit_fields:
  "environ (emit w ev) = environ w \<and> web (emit w ev) = web w \<and> post_ok (emit w ev) = post_ok w
     \<and> smtp_ok (emit w ev) = smtp_ok w \<and> writable (emit w ev) = writable w
     \<and> seen_file (emit w ev) = seen_file w"
  by (simp add: emit_def)

lemma writes_emit_log: "writes (emit w (LogInfo s)) = writes w"
  by (simp add: writes_def emit_def)



lemma fetch_pages_found:
  "web w' = web w \<Longrightarrow> fst (fetch_pages w' ps acc) = fst (fetch_pages w ps acc)"
proof (induction ps arbitrary: w w' acc)
  case Nil
  show ?case by simp
next
  case (Cons p ps)
  show ?case
  proof (cases "web w (page_url p)")
    case (Inl err)
    have "fst (fetch_pages (emit (emit w' (HttpGet (page_url p)))
                  (LogException ''Fetch/parse error'')) ps acc)
        = fst (fetch_pages (emit (emit w (HttpGet (page_url p)))
                  (LogException ''Fetch/parse error'')) ps acc)"
      by (rule Cons.IH) (simp add: Cons.prems emit_fields)
    with Inl Cons.prems show ?thesis by simp
  next
    case (Inr anchors)
    have "fst (fetch_pages (emit (emit w' (HttpGet (page_url p))) (Sleep 1)) ps
                  (acc @ parse_jobs anchors))
        = fst (fetch_pages (emit (emit w (HttpGet (page_url p))) (Sleep 1)) ps
                  (acc @ parse_jobs anchors))"
      by (rule Cons.IH) (simp add: Cons.prems emit_fields)
    with Inr Cons.prems show ?thesis by simp
  qed
qed

lemma fetch_pages_frame:
  "snd (fetch_pages w ps acc) = w\<lparr>trace := trace (snd (fetch_pages w ps acc))\<rparr>"
proof (induction ps arbitrary: w acc)
  case Nil
  show ?case by simp
next
  case (Cons p ps)
  show ?case
  proof (cases "web w (page_url p)")
    case (Inl err)
    then show ?thesis
      using Cons.IH [of "emit (emit w (HttpGet (page_url p))) (LogException ''Fetch/parse error'')"
          acc]
      by (simp add: emit_def)
  next
    case (Inr anchors)
    then show ?thesis
      using Cons.IH [of "emit (emit w (HttpGet (page_url p))) (Sleep 1)" "acc @ parse_jobs anchors"]
      by (simp add: emit_def)
  qed
qed

lemma fetch_pages_writes: "writes (snd (fetch_pages w ps acc)) = writes w"
proof (induction ps arbitrary: w acc)
  case Nil
  show ?case by simp
next
  case (Cons p ps)
  show ?case
    by (cases "web w (page_url p)") (simp_all add: Cons.IH, simp_all add: writes_def emit_def)
qed







subsection \<open>Delivery\<close>

lemma send_telegram_unconfigured:
  "\<not> (truthy (TELEGRAM_BOT_TOKEN (environ w)) \<and> truthy (TELEGRAM_CHAT_ID (environ w))) \<Longrightarrow>
     send_telegram w msg = (False, w)"
  by (simp add: send_telegram_def)

lemma send_email_bad_port:
  "smtp_port (environ w) = Inl err \<Longrightarrow> send_email w subject body = (Inl err, w)"
  by (simp add: send_email_def)

text \<open>The order of the channels: when Telegram delivers, e-mail is not tried; when
  Telegram is not configured, the outcome of \<^verbatim>\<open>alert\<close> is that of \<^verbatim>\<open>send_email\<close>.\<close>

lemma alert_primary:
  "new \<noteq> [] \<Longrightarrow> send_telegram w (alert_msg new) = (True, w1) \<Longrightarrow> alert w new = (None, w1)"
  by (simp add: alert_def)

lemma alert_fallback:
  assumes "new \<noteq> []"
      and "\<not> (truthy (TELEGRAM_BOT_TOKEN (environ w)) \<and> truthy (TELEGRAM_CHAT_ID (environ w)))"
  shows "alert w new =
           (case send_email w ''New UNjobs - Bangladesh'' (alert_msg new) of
              (Inl err, w2) \<Rightarrow> (Some err, w2)
            | (Inr ok, w2) \<Rightarrow> (None, w2))"
  using assms(1) by (simp add: alert_def send_telegram_unconfigured [OF assms(2)])



lemma alert_raises:
  assumes "new \<noteq> []"
      and "\<not> (truthy (TELEGRAM_BOT_TOKEN (environ w)) \<and> truthy (TELEGRAM_CHAT_ID (environ w)))"
      and "smtp_port (environ w) = Inl err"
  shows "alert w new = (Some err, w)"
  using assms(1) by (simp add: alert_def send_telegram_unconfigured [OF assms(2)]
      send_email_bad_port [OF assms(3)])


lemma py_int_abc: "py_int ''abc'' = Inl ValueError"
  by (simp add: py_int_def py_strip_def py_isspace_def digit_val_def)

lemma smtp_port_bad: "smtp_port (environ world_bad_port) = Inl ValueError"
  by (simp add: smtp_port_def world_bad_port_def world_0_def env_unset_def truthy_def env_str_def
      py_int_abc)




lemma telegram_unset_bad_port:
  "\<not> (truthy (TELEGRAM_BOT_TOKEN (environ world_bad_port))
       \<and> truthy (TELEGRAM_CHAT_ID (environ world_bad_port)))"
  by (simp add: world_bad_port_def world_0_def env_unset_def truthy_def)

text \<open>
  Claim C6 (the code differs). With no Telegram token or chat id and with
  \<^verbatim>\<open>SMTP_PORT=abc\<close>, \<^verbatim>\<open>alert\<close> on one new record falls back to \<^verbatim>\<open>send_email\<close>, whose
  line 76 raises \<^verbatim>\<open>ValueError\<close> before the configuration check and outside the
  \<^verbatim>\<open>try\<close>; the exception leaves \<^verbatim>\<open>alert\<close>, and nothing was sent or logged.
\<close>

theorem alert_raises_on_bad_port:
  "alert world_bad_port [job_1] = (Some ValueError, world_bad_port)"
  by (simp add: alert_def send_telegram_unconfigured [OF telegram_unset_bad_port]
      send_email_bad_port [OF smtp_port_bad])

subsection \<open>One cycle\<close>

lemma pages_list: "pages = [1, 2]"
  by (simp add: pages_def PAGES_TO_CHECK_def upt_rec)


lemma parse_fake_page: "parse_jobs [anchor_A, anchor_B] = [job_A, job_B]"
  by (simp add: parse_jobs_def anchor_A_def anchor_B_def find_org_def job_A_def job_B_def Let_def)

lemma fetch_world_0:
  "fst (fetch_pages world_0 pages []) = [job_A, job_B, job_A, job_B]"
  by (simp add: pages_list world_0_def parse_fake_page emit_def)

lemma fetch_world_bad_port:
  "fst (fetch_pages world_bad_port pages []) = [job_A, job_B, job_A, job_B]"
  using fetch_pages_found [of world_bad_port world_0 pages "[]"]
  by (simp add: fetch_world_0 world_bad_port_def)




lemma unique_fake: "unique [job_A, job_B, job_A, job_B] = [job_A, job_B]"
  by (simp add: unique_def job_A_def job_B_def)

lemma writes_world_0: "writes world_0 = []"
  by (simp add: writes_def world_0_def)



lemma check_once_raise:
  assumes "fetch_pages w pages [] = (found, wp)"
      and "novel seen (unique found) = new" and "new \<noteq> []"
      and "alert (emit wp (LogInfo (''New jobs: '' @ str_nat (length new)))) new = (Some err, wa)"
  shows "check_once w seen = (Some err, seen, wa)"
  using assms by (simp add: check_once_def Let_def split: prod.splits)





lemma check_once_aborts:
  assumes fetch: "fetch_pages w pages [] = (found, wp)"
      and new: "novel seen (unique found) \<noteq> []"
      and tg: "\<not> (truthy (TELEGRAM_BOT_TOKEN (environ w)) \<and> truthy (TELEGRAM_CHAT_ID (environ w)))"
      and port: "smtp_port (environ w) = Inl err"
  shows "check_once w seen =
           (Some err, seen,
            emit wp (LogInfo (''New jobs: '' @ str_nat (length (novel seen (unique found))))))"
proof -
  let ?new = "novel seen (unique found)"
  let ?wl = "emit wp (LogInfo (''New jobs: '' @ str_nat (length ?new)))"
  have wp: "wp = w\<lparr>trace := trace wp\<rparr>"
    using fetch_pages_frame [of w pages "[]"] fetch by simp
  have env: "environ wp = environ w"
    using frame_fields [OF wp] by simp
  have "alert ?wl ?new = (Some err, ?wl)"
    by (rule alert_raises [OF new]) (simp_all add: emit_fields env tg port)
  from check_once_raise [OF fetch refl new this] show ?thesis .
qed


text \<open>
  Claim C7 (the code differs). In the world with no channel configured and
  \<^verbatim>\<open>SMTP_PORT=abc\<close>, the pages yield the two new records \<^verbatim>\<open>A::t1\<close> and \<^verbatim>\<open>B::t2\<close>, the
  cycle ends with the \<^verbatim>\<open>ValueError\<close> of the delivery attempt, the seen set is still
  empty, and the seen file was never written.
\<close>

theorem check_once_aborts_on_bad_port:
  "novel {||} (unique (fst (fetch_pages world_bad_port pages []))) = [job_A, job_B]
   \<and> fst (check_once world_bad_port {||}) = Some ValueError
   \<and> fst (snd (check_once world_bad_port {||})) = {||}
   \<and> seen_file (snd (snd (check_once world_bad_port {||}))) = Missing
   \<and> writes (snd (snd (check_once world_bad_port {||}))) = []"
proof -
  let ?pages = "pages"
  let ?wp = "snd (fetch_pages world_bad_port ?pages [])"
  have fetch: "fetch_pages world_bad_port ?pages [] = ([job_A, job_B, job_A, job_B], ?wp)"
    using fetch_world_bad_port by (simp add: prod_eq_iff)
  have new: "novel {||} (unique [job_A, job_B, job_A, job_B]) = [job_A, job_B]"
    by (simp add: novel_empty_seen unique_fake)
  then have ne: "novel {||} (unique [job_A, job_B, job_A, job_B]) \<noteq> []"
    by simp
  have wp: "?wp = world_bad_port\<lparr>trace := trace ?wp\<rparr>"
    by (rule fetch_pages_frame)
  have sf: "seen_file ?wp = Missing"
    using frame_fields [OF wp] by (simp add: world_bad_port_def world_0_def)
  have wr: "writes ?wp = []"
    by (simp add: fetch_pages_writes) (simp add: writes_def world_bad_port_def world_0_def)
  show ?thesis
    using check_once_aborts [OF fetch ne telegram_unset_bad_port smtp_port_bad] new sf wr
      fetch_world_bad_port
    by (simp add: emit_fields writes_emit_log)
qed




end
